theory Spec2Isabelle
  imports Complex_Main "HOL-Library.Word"
begin

unbundle bit_operations_syntax

section \<open>JavaScript values\<close>

text \<open>
  A JavaScript string is a sequence of UTF-16 code units; \<open>length\<close>, \<open>slice\<close>, \<open>trim\<close> and the
  regular expressions of the sources (none carries the \<open>u\<close> flag) all count code units.
\<close>

type_synonym code_unit = "16 word"
type_synonym jsstring = "code_unit list"

definition ascii :: "string \<Rightarrow> jsstring" where
  "ascii s = map of_char s"

text \<open>
  A field that the sources read with \<open>||\<close>, \<open>!\<close> or a template literal: absent
  (\<open>undefined\<close>), \<open>null\<close>, or a string.
\<close>

datatype jsval = Undefined | Null | Str jsstring

fun truthy :: "jsval \<Rightarrow> bool" where
  "truthy (Str s) = (s \<noteq> [])"
| "truthy _ = False"

text \<open>\<open>a || b\<close>\<close>

definition or_else :: "jsval \<Rightarrow> jsval \<Rightarrow> jsval" where
  "or_else a b = (if truthy a then a else b)"

text \<open>String conversion inside a template literal.\<close>

fun to_string :: "jsval \<Rightarrow> jsstring" where
  "to_string Undefined = ascii ''undefined''"
| "to_string Null = ascii ''null''"
| "to_string (Str s) = s"

text \<open>
  Decimal rendering of a non-negative integer in a template literal (array lengths and
  loop indices; all far below the 1e21 where JavaScript switches to exponent notation).
\<close>

fun decimal :: "nat \<Rightarrow> jsstring" where
  "decimal n = (if n < 10 then [of_nat (48 + n)] else decimal (n div 10) @ [of_nat (48 + n mod 10)])"

declare decimal.simps [simp del]

text \<open>
  What a \<open>throw\<close> carries: an \<open>Error\<close> with its message, or some other value
  (\<open>error instanceof Error\<close> is false).
\<close>

datatype exn = Error jsstring | Thrown

text \<open>\<open>error instanceof Error ? error.message : 'Unknown error'\<close>\<close>

fun error_message :: "exn \<Rightarrow> jsstring" where
  "error_message (Error m) = m"
| "error_message Thrown = ascii ''Unknown error''"

text \<open>
  \<open>WhiteSpace\<close> and \<open>LineTerminator\<close> code units: what \<open>String.prototype.trim\<close> strips
  and what \<open>\s\<close> matches.
\<close>

definition is_white_space :: "code_unit \<Rightarrow> bool" where
  "is_white_space c \<longleftrightarrow>
     c = 0x0009 \<or> c = 0x000A \<or> c = 0x000B \<or> c = 0x000C \<or> c = 0x000D \<or> c = 0x0020 \<or>
     c = 0x00A0 \<or> c = 0x1680 \<or> (0x2000 \<le> c \<and> c \<le> 0x200A) \<or> c = 0x2028 \<or> c = 0x2029 \<or>
     c = 0x202F \<or> c = 0x205F \<or> c = 0x3000 \<or> c = 0xFEFF"

definition trim :: "jsstring \<Rightarrow> jsstring" where
  "trim s = rev (dropWhile is_white_space (rev (dropWhile is_white_space s)))"

text \<open>\<open>s.slice(a, b)\<close> and \<open>s.substring(a, b)\<close> for \<open>0 \<le> a \<le> b\<close>.\<close>

definition slice :: "jsstring \<Rightarrow> nat \<Rightarrow> nat \<Rightarrow> jsstring" where
  "slice s a b = take (b - a) (drop a s)"

text \<open>\<open>parts.join(sep)\<close>\<close>

fun join :: "jsstring \<Rightarrow> jsstring list \<Rightarrow> jsstring" where
  "join sep [] = []"
| "join sep [x] = x"
| "join sep (x # y # ys) = x @ sep @ join sep (y # ys)"

section \<open>Chunking (scripts/vectorize-drive.ts and the Drive sync route)\<close>

text \<open>
  \<open>text.split(re)\<close> for a regular expression without capture groups that cannot match the
  empty string. The matcher gives the length of the match of \<open>re\<close> anchored at the start
  of the remaining text, if there is one. \<open>piece\<close> is the text since the last separator.
\<close>

fun split_loop :: "(jsstring \<Rightarrow> nat option) \<Rightarrow> jsstring \<Rightarrow> jsstring \<Rightarrow> jsstring list" where
  "split_loop m piece [] = [piece]"
| "split_loop m piece (c # cs) =
     (case m (c # cs) of
        Some (Suc n) \<Rightarrow> piece # split_loop m [] (drop n cs)
      | _ \<Rightarrow> split_loop m (piece @ [c]) cs)"

definition split :: "(jsstring \<Rightarrow> nat option) \<Rightarrow> jsstring \<Rightarrow> jsstring list" where
  "split m text = split_loop m [] text"

text \<open>\<open>/\n\n+/\<close>: a run of two or more line feeds, taken whole.\<close>

definition match_paragraph_break :: "jsstring \<Rightarrow> nat option" where
  "match_paragraph_break s =
     (let n = length (takeWhile (\<lambda>c. c = 0x000A) s) in if 2 \<le> n then Some n else None)"

text \<open>
  \<open>/[.!?]+\s+/\<close>: a run of terminal punctuation followed by a run of white space. Both runs
  are greedy and the two classes are disjoint, so only the maximal runs can match.
\<close>

definition is_terminal :: "code_unit \<Rightarrow> bool" where
  "is_terminal c \<longleftrightarrow> c = 0x002E \<or> c = 0x0021 \<or> c = 0x003F"

definition match_sentence_end :: "jsstring \<Rightarrow> nat option" where
  "match_sentence_end s =
     (let p = length (takeWhile is_terminal s);
          w = length (takeWhile is_white_space (drop p s))
      in if 1 \<le> p \<and> 1 \<le> w then Some (p + w) else None)"

definition MAX_CHUNK_SIZE :: nat where
  "MAX_CHUNK_SIZE = 2000"

definition OVERLAP :: nat where
  "OVERLAP = 200"

text \<open>
  The inner loop
  \<open>for (let i = 0; i < para.length; i += MAX_CHUNK_SIZE - OVERLAP)\<close>, pushing onto \<open>chunks\<close>.
\<close>

function window_loop :: "jsstring \<Rightarrow> nat \<Rightarrow> jsstring list \<Rightarrow> jsstring list" where
  "window_loop para i chunks =
     (if i < length para
      then window_loop para (i + (MAX_CHUNK_SIZE - OVERLAP))
             (if length (trim (slice para i (i + MAX_CHUNK_SIZE))) > 20
              then chunks @ [trim (slice para i (i + MAX_CHUNK_SIZE))]
              else chunks)
      else chunks)"
  by pat_completeness auto
termination
  by (relation "measure (\<lambda>(para, i, chunks). length para - i)")
     (auto simp: MAX_CHUNK_SIZE_def OVERLAP_def)

declare window_loop.simps [simp del]

text \<open>\<open>for (const para of paragraphChunks)\<close> (and the same loop over \<open>sentenceChunks\<close>).\<close>

fun push_fragments :: "jsstring list \<Rightarrow> jsstring list \<Rightarrow> jsstring list" where
  "push_fragments [] chunks = chunks"
| "push_fragments (para # rest) chunks =
     push_fragments rest
       (if length para \<le> MAX_CHUNK_SIZE then chunks @ [para] else window_loop para 0 chunks)"

definition paragraphChunks :: "jsstring \<Rightarrow> jsstring list" where
  "paragraphChunks text = filter (\<lambda>chunk. length (trim chunk) > 20) (split match_paragraph_break text)"

definition sentenceChunks :: "jsstring \<Rightarrow> jsstring list" where
  "sentenceChunks text = filter (\<lambda>chunk. length (trim chunk) > 20) (split match_sentence_end text)"

text \<open>The chunking block, the same in the script and in the route.\<close>

definition chunk_text :: "jsstring \<Rightarrow> jsstring list" where
  "chunk_text text =
     (if length (paragraphChunks text) > 0 then push_fragments (paragraphChunks text) []
      else if length (sentenceChunks text) > 0 then push_fragments (sentenceChunks text) []
      else window_loop text 0 [])"

text \<open>
  The chunker as the specification words it: a fragment no longer than the maximum is one
  chunk; a longer one is cut into windows of the maximum size that advance by the maximum
  less the overlap, each trimmed and kept when longer than the minimum.
\<close>

definition windows :: "jsstring \<Rightarrow> jsstring list" where
  "windows s =
     filter (\<lambda>c. length c > 20)
       (map (\<lambda>k. trim (slice s (k * (MAX_CHUNK_SIZE - OVERLAP)) (k * (MAX_CHUNK_SIZE - OVERLAP) + MAX_CHUNK_SIZE)))
          [0 ..< (length s + (MAX_CHUNK_SIZE - OVERLAP) - 1) div (MAX_CHUNK_SIZE - OVERLAP)])"

definition tier_chunks :: "jsstring list \<Rightarrow> jsstring list" where
  "tier_chunks fragments =
     concat (map (\<lambda>f. if length f \<le> MAX_CHUNK_SIZE then [f] else windows f) fragments)"

section \<open>External collaborators\<close>

text \<open>
  The Drive client, the document extractor, the embedding and chat models and the vector
  index are reached through asynchronous calls that may throw. Each is a function of the
  state \<open>'w\<close> of the outside world, which it may change; a thrown exception is the
  \<open>Inl\<close> result. Nothing is assumed about them: a call may fail once and succeed the
  next time.
\<close>

type_synonym buffer = "8 word list"
type_synonym embedding = "real list"

record drive_file =
  f_id :: jsval
  f_name :: jsval
  f_mimeType :: jsval
  f_modifiedTime :: jsval

record chunk_metadata =
  md_title :: jsval
  md_text :: jsval
  md_fileId :: jsval
  md_chunkIndex :: "nat option"
  md_mimeType :: jsval
  md_modifiedTime :: jsval

record pinecone_vector =
  pv_id :: jsstring
  pv_values :: embedding
  pv_metadata :: chunk_metadata

record match =
  mt_id :: jsstring
  mt_score :: "real option"
  mt_metadata :: "chunk_metadata option"

record chat_message =
  cm_role :: jsstring
  cm_content :: jsstring

record page =
  pg_html :: jsstring
  pg_text :: jsstring

datatype severity = Low | Medium | High

fun severity_string :: "severity \<Rightarrow> jsstring" where
  "severity_string Low = ascii ''low''"
| "severity_string Medium = ascii ''medium''"
| "severity_string High = ascii ''high''"

text \<open>What \<open>detectOutdatedTerminology\<close> returns for each match of a pattern.\<close>

record outdated_issue =
  oi_term :: jsstring
  oi_context :: jsstring
  oi_severity :: severity
  oi_location :: jsval

text \<open>
  An entry of the \<open>issues\<close> array: one parsed from the model's JSON answer, or one built by
  the route. Its fields are strings, \<open>null\<close> or absent.
\<close>

record issue =
  is_type :: jsval
  is_description :: jsval
  is_currentText :: jsval
  is_outdatedText :: jsval
  is_suggestedReplacement :: jsval
  is_reasoning :: jsval
  is_location :: jsval
  is_severity :: jsval
  is_priority :: jsval

text \<open>
  A field that the route spreads as \<open>...(field || [])\<close>: falsy, an array, or a truthy value
  that is not iterable, with the message of the \<open>TypeError\<close> that spreading it raises.
\<close>

datatype 'a spreadable = Absent | Items "'a list" | NotIterable jsstring

text \<open>
  The \<open>analysis\<close> object: the parsed JSON answer of the model, or the fallback that the
  route builds. Only the fields that decide issues, risks and the risk level are kept.
\<close>

record analysis =
  an_risks :: "jsstring spreadable"
  an_riskLevel :: jsval
  an_issues :: "issue spreadable"

text \<open>
  \<open>fetchPageContent\<close> catches every error and returns \<open>null\<close>. The regular expressions of
  \<open>detectOutdatedTerminology\<close>, the prompt template and its two tests on the page text,
  the extraction of the JSON object from the model's answer (\<open>None\<close> when no object is
  found or \<open>JSON.parse\<close> throws) and the chain of \<open>replace\<close> calls that strips Markdown
  from a chat answer are parameters as well.
\<close>

record 'w services =
  listFilesInFolder :: "jsstring \<Rightarrow> 'w \<Rightarrow> (exn + drive_file list) \<times> 'w"
  getFileContent :: "jsval \<Rightarrow> jsval \<Rightarrow> 'w \<Rightarrow> (exn + buffer) \<times> 'w"
  extractTextFromDocument :: "buffer \<Rightarrow> jsval \<Rightarrow> 'w \<Rightarrow> (exn + jsstring) \<times> 'w"
  getEmbedding :: "jsstring \<Rightarrow> 'w \<Rightarrow> (exn + embedding) \<times> 'w"
  upsertFailure :: "pinecone_vector list \<Rightarrow> 'w \<Rightarrow> exn option \<times> 'w"
  queryPinecone :: "embedding \<Rightarrow> nat \<Rightarrow> 'w \<Rightarrow> (exn + match list) \<times> 'w"
  chatCompletion :: "chat_message list \<Rightarrow> jsval \<Rightarrow> 'w \<Rightarrow> (exn + jsstring) \<times> 'w"
  fetchPageContent :: "jsstring \<Rightarrow> 'w \<Rightarrow> page option \<times> 'w"
  detectOutdatedTerminology :: "jsstring \<Rightarrow> outdated_issue list"
  analysisPrompt :: "jsstring \<Rightarrow> outdated_issue list \<Rightarrow> jsstring \<Rightarrow> jsstring"
  parseAnalysis :: "jsstring \<Rightarrow> analysis option"
  stripMarkdown :: "jsstring \<Rightarrow> jsstring"

type_synonym index = "jsstring \<rightharpoonup> pinecone_vector"

text \<open>The chunk that a stored vector stands for: its file, its index in the file, its text.\<close>

definition stored_chunk :: "index \<Rightarrow> jsstring \<Rightarrow> (jsval \<times> nat option \<times> jsval) option" where
  "stored_chunk idx k =
     map_option (\<lambda>v. (md_fileId (pv_metadata v), md_chunkIndex (pv_metadata v), md_text (pv_metadata v)))
       (idx k)"

text \<open>
  Modelled from the spec: \<open>upsertToPinecone\<close> of lib/pinecone, which is not among the
  sources. The index keeps one vector per identifier, so an upsert under an identifier
  already present overwrites the vector stored there; a failed upsert stores nothing.
\<close>

definition upsertToPinecone ::
  "'w services \<Rightarrow> pinecone_vector list \<Rightarrow> 'w \<times> index \<Rightarrow> (exn + unit) \<times> ('w \<times> index)" where
  "upsertToPinecone sv vectors st =
     (case upsertFailure sv vectors (fst st) of
        (Some e, w') \<Rightarrow> (Inl e, (w', snd st))
      | (None, w') \<Rightarrow> (Inr (), (w', fold (\<lambda>v m. m(pv_id v \<mapsto> v)) vectors (snd st))))"

section \<open>Ingestion: the script (scripts/vectorize-drive.ts)\<close>

text \<open>An entry of \<open>processedFiles\<close>.\<close>

record processed_file =
  pf_name :: jsstring
  pf_chunks :: nat
  pf_error :: "jsstring option"

definition script_vector :: "drive_file \<Rightarrow> nat \<Rightarrow> jsstring \<Rightarrow> embedding \<Rightarrow> pinecone_vector" where
  "script_vector file j chunk emb =
     \<lparr> pv_id = to_string (f_id file) @ ascii ''_chunk_'' @ decimal j,
       pv_values = emb,
       pv_metadata =
         \<lparr> md_title = or_else (f_name file) (Str (ascii ''Untitled'')),
           md_text = Str chunk,
           md_fileId = f_id file,
           md_chunkIndex = Some j,
           md_mimeType = f_mimeType file,
           md_modifiedTime = f_modifiedTime file \<rparr> \<rparr>"

text \<open>
  \<open>for (let j = 0; j < chunks.length; j++) { try { ... } catch (chunkError) { ... } }\<close>.
  The state of the loop is \<open>successfulChunks\<close> and what \<open>console.error\<close> has printed:
  the index of each chunk that failed, with its error.
\<close>

fun script_upload_loop ::
  "'w services \<Rightarrow> drive_file \<Rightarrow> jsstring list \<Rightarrow> nat \<Rightarrow> nat \<times> (nat \<times> exn) list \<Rightarrow> 'w \<times> index \<Rightarrow>
   (nat \<times> (nat \<times> exn) list) \<times> ('w \<times> index)" where
  "script_upload_loop sv file [] j acc st = (acc, st)"
| "script_upload_loop sv file (chunk # rest) j acc st =
     (case getEmbedding sv chunk (fst st) of
        (Inl chunkError, w1) \<Rightarrow>
          script_upload_loop sv file rest (j + 1) (fst acc, snd acc @ [(j, chunkError)]) (w1, snd st)
      | (Inr emb, w1) \<Rightarrow>
          (case upsertToPinecone sv [script_vector file j chunk emb] (w1, snd st) of
             (Inl chunkError, st2) \<Rightarrow>
               script_upload_loop sv file rest (j + 1) (fst acc, snd acc @ [(j, chunkError)]) st2
           | (Inr _, st2) \<Rightarrow>
               script_upload_loop sv file rest (j + 1) (fst acc + 1, snd acc) st2))"

definition script_name :: "drive_file \<Rightarrow> jsstring" where
  "script_name file = to_string (or_else (f_name file) (Str (ascii ''Unknown'')))"

text \<open>
  The body of the \<open>try\<close> for one file: the entry it pushes and what it adds to
  \<open>totalChunks\<close>, or the exception that escapes it.
\<close>

definition script_try_file ::
  "'w services \<Rightarrow> drive_file \<Rightarrow> 'w \<times> index \<Rightarrow> (exn + processed_file \<times> nat) \<times> ('w \<times> index)" where
  "script_try_file sv file st =
     (case getFileContent sv (f_id file) (f_mimeType file) (fst st) of
        (Inl e, w1) \<Rightarrow> (Inl e, (w1, snd st))
      | (Inr buffer, w1) \<Rightarrow>
          if length buffer = 0
          then (Inr (\<lparr> pf_name = script_name file, pf_chunks = 0, pf_error = Some (ascii ''Empty file'') \<rparr>, 0),
                (w1, snd st))
          else
            (case extractTextFromDocument sv buffer (or_else (f_mimeType file) (Str (ascii ''text/plain''))) w1 of
               (Inl e, w2) \<Rightarrow> (Inl e, (w2, snd st))
             | (Inr text, w2) \<Rightarrow>
                 if text = [] \<or> length (trim text) = 0
                 then (Inr (\<lparr> pf_name = script_name file, pf_chunks = 0,
                              pf_error = Some (ascii ''No text extracted'') \<rparr>, 0), (w2, snd st))
                 else if length (chunk_text text) = 0
                 then (Inr (\<lparr> pf_name = script_name file, pf_chunks = 0,
                              pf_error = Some (ascii ''No valid chunks'') \<rparr>, 0), (w2, snd st))
                 else
                   (case script_upload_loop sv file (chunk_text text) 0 (0, []) (w2, snd st) of
                      ((successfulChunks, logged), st3) \<Rightarrow>
                        (Inr (\<lparr> pf_name = script_name file, pf_chunks = successfulChunks,
                                 pf_error = None \<rparr>, successfulChunks), st3))))"

text \<open>One turn of the loop over \<open>files\<close>, with its \<open>catch\<close>.\<close>

definition script_file ::
  "'w services \<Rightarrow> drive_file \<Rightarrow> processed_file list \<times> nat \<Rightarrow> 'w \<times> index \<Rightarrow>
   (processed_file list \<times> nat) \<times> ('w \<times> index)" where
  "script_file sv file acc st =
     (case script_try_file sv file st of
        (Inr (entry, n), st') \<Rightarrow> ((fst acc @ [entry], snd acc + n), st')
      | (Inl error, st') \<Rightarrow>
          ((fst acc @ [\<lparr> pf_name = script_name file, pf_chunks = 0,
                         pf_error = Some (slice (error_message error) 0 100) \<rparr>], snd acc), st'))"

fun script_loop ::
  "'w services \<Rightarrow> drive_file list \<Rightarrow> processed_file list \<times> nat \<Rightarrow> 'w \<times> index \<Rightarrow>
   (processed_file list \<times> nat) \<times> ('w \<times> index)" where
  "script_loop sv [] acc st = (acc, st)"
| "script_loop sv (file # files) acc st =
     (case script_file sv file acc st of (acc', st') \<Rightarrow> script_loop sv files acc' st')"

text \<open>
  How a run of the script ends: \<open>process.exit(1)\<close> for a missing folder id or a fatal error,
  the early return for an empty folder, or the summary of \<open>processedFiles\<close> and
  \<open>totalChunks\<close>.
\<close>

datatype script_outcome =
    MissingFolderId
  | FatalError exn
  | NoFilesFound
  | Summary "processed_file list" nat

definition vectorizeDriveFiles ::
  "'w services \<Rightarrow> jsval \<Rightarrow> 'w \<times> index \<Rightarrow> script_outcome \<times> ('w \<times> index)" where
  "vectorizeDriveFiles sv folderId st =
     (if \<not> truthy folderId then (MissingFolderId, st)
      else
        (case listFilesInFolder sv (to_string folderId) (fst st) of
           (Inl error, w1) \<Rightarrow> (FatalError error, (w1, snd st))
         | (Inr files, w1) \<Rightarrow>
             if length files = 0 then (NoFilesFound, (w1, snd st))
             else
               (case script_loop sv files ([], 0) (w1, snd st) of
                  ((processedFiles, totalChunks), st') \<Rightarrow> (Summary processedFiles totalChunks, st'))))"

section \<open>Ingestion: the Drive sync route\<close>

definition route_vector :: "drive_file \<Rightarrow> nat \<Rightarrow> jsstring \<Rightarrow> embedding \<Rightarrow> pinecone_vector" where
  "route_vector file chunkIndex chunk emb =
     \<lparr> pv_id = to_string (f_id file) @ ascii ''-chunk-'' @ decimal chunkIndex,
       pv_values = emb,
       pv_metadata =
         \<lparr> md_title = f_name file,
           md_text = Str chunk,
           md_fileId = f_id file,
           md_chunkIndex = Some chunkIndex,
           md_mimeType = f_mimeType file,
           md_modifiedTime = Undefined \<rparr> \<rparr>"

text \<open>
  \<open>for (let chunkIndex = 0; chunkIndex < chunks.length; chunkIndex++)\<close>, pushing onto
  \<open>vectors\<close>; an exception of \<open>getEmbedding\<close> leaves the loop.
\<close>

fun route_embed_loop ::
  "'w services \<Rightarrow> drive_file \<Rightarrow> jsstring list \<Rightarrow> nat \<Rightarrow> pinecone_vector list \<Rightarrow> 'w \<Rightarrow>
   (exn + pinecone_vector list) \<times> 'w" where
  "route_embed_loop sv file [] chunkIndex vectors w = (Inr vectors, w)"
| "route_embed_loop sv file (chunk # rest) chunkIndex vectors w =
     (case getEmbedding sv chunk w of
        (Inl e, w1) \<Rightarrow> (Inl e, w1)
      | (Inr emb, w1) \<Rightarrow>
          route_embed_loop sv file rest (chunkIndex + 1)
            (vectors @ [route_vector file chunkIndex chunk emb]) w1)"

definition route_try_file ::
  "'w services \<Rightarrow> drive_file \<Rightarrow> 'w \<times> index \<Rightarrow> (exn + processed_file \<times> nat) \<times> ('w \<times> index)" where
  "route_try_file sv file st =
     (case getFileContent sv (f_id file) (or_else (f_mimeType file) (Str (ascii ''text/plain''))) (fst st) of
        (Inl e, w1) \<Rightarrow> (Inl e, (w1, snd st))
      | (Inr buffer, w1) \<Rightarrow>
          if length buffer = 0
          then (Inr (\<lparr> pf_name = to_string (f_name file), pf_chunks = 0,
                       pf_error = Some (ascii ''File is empty (0 bytes)'') \<rparr>, 0), (w1, snd st))
          else
            (case extractTextFromDocument sv buffer (or_else (f_mimeType file) (Str (ascii ''text/plain''))) w1 of
               (Inl e, w2) \<Rightarrow> (Inl e, (w2, snd st))
             | (Inr text, w2) \<Rightarrow>
                 if text = [] \<or> length (trim text) = 0
                 then (Inr (\<lparr> pf_name = to_string (f_name file), pf_chunks = 0,
                              pf_error = Some (ascii ''No text extracted'') \<rparr>, 0), (w2, snd st))
                 else if length (chunk_text text) = 0
                 then (Inr (\<lparr> pf_name = to_string (f_name file), pf_chunks = 0,
                              pf_error = Some (ascii ''No valid chunks created'') \<rparr>, 0), (w2, snd st))
                 else
                   (case route_embed_loop sv file (chunk_text text) 0 [] w2 of
                      (Inl e, w3) \<Rightarrow> (Inl e, (w3, snd st))
                    | (Inr vectors, w3) \<Rightarrow>
                        (case upsertToPinecone sv vectors (w3, snd st) of
                           (Inl e, st4) \<Rightarrow> (Inl e, st4)
                         | (Inr _, st4) \<Rightarrow>
                             (Inr (\<lparr> pf_name = to_string (f_name file), pf_chunks = length vectors,
                                      pf_error = None \<rparr>, length vectors), st4)))))"

text \<open>The files that pass the guard \<open>if (!file.id || !file.name) continue\<close>.\<close>

definition has_id_and_name :: "drive_file \<Rightarrow> bool" where
  "has_id_and_name file \<longleftrightarrow> truthy (f_id file) \<and> truthy (f_name file)"

text \<open>
  The state of the loop over \<open>files\<close>: \<open>processedFiles\<close>, \<open>totalChunks\<close> and
  \<open>failedFileDetails\<close>.
\<close>

record route_acc =
  ra_processedFiles :: "processed_file list"
  ra_totalChunks :: nat
  ra_failedFileDetails :: "(jsstring \<times> jsstring) list"

definition route_file ::
  "'w services \<Rightarrow> drive_file \<Rightarrow> route_acc \<Rightarrow> 'w \<times> index \<Rightarrow> route_acc \<times> ('w \<times> index)" where
  "route_file sv file acc st =
     (if \<not> has_id_and_name file then (acc, st)
      else
        (case route_try_file sv file st of
           (Inr (entry, n), st') \<Rightarrow>
             (acc\<lparr> ra_processedFiles := ra_processedFiles acc @ [entry],
                   ra_totalChunks := ra_totalChunks acc + n \<rparr>, st')
         | (Inl error, st') \<Rightarrow>
             (acc\<lparr> ra_failedFileDetails :=
                      ra_failedFileDetails acc @ [(to_string (f_name file), error_message error)],
                   ra_processedFiles :=
                      ra_processedFiles acc @
                        [\<lparr> pf_name = to_string (f_name file), pf_chunks = 0,
                            pf_error = Some (error_message error) \<rparr>] \<rparr>, st')))"

fun route_loop ::
  "'w services \<Rightarrow> drive_file list \<Rightarrow> route_acc \<Rightarrow> 'w \<times> index \<Rightarrow> route_acc \<times> ('w \<times> index)" where
  "route_loop sv [] acc st = (acc, st)"
| "route_loop sv (file # files) acc st =
     (case route_file sv file acc st of (acc', st') \<Rightarrow> route_loop sv files acc' st')"

text \<open>
  The JSON body of the successful answer (without its \<open>message\<close>, a sentence built from
  the two counts).
\<close>

record sync_report =
  sr_totalFiles :: nat
  sr_totalChunks :: nat
  sr_processedFiles :: "processed_file list"
  sr_failedFileDetails :: "(jsstring \<times> jsstring) list"

datatype route_response =
    RouteBadRequest jsstring
  | RouteServerError jsstring jsstring
  | RouteOk sync_report

text \<open>
  \<open>POST\<close> of the sync route. \<open>param\<close> is the \<open>folderId\<close> query parameter and \<open>env_folder\<close> the
  environment variable \<open>GOOGLE_DRIVE_FOLDER_ID\<close>.
\<close>

definition sync_POST ::
  "'w services \<Rightarrow> jsval \<Rightarrow> jsval \<Rightarrow> 'w \<times> index \<Rightarrow> route_response \<times> ('w \<times> index)" where
  "sync_POST sv param env_folder st =
     (if \<not> truthy (or_else param env_folder)
      then (RouteBadRequest (ascii ''Folder ID is required''), st)
      else
        (case listFilesInFolder sv (to_string (or_else param env_folder)) (fst st) of
           (Inl error, w1) \<Rightarrow>
             (RouteServerError (ascii ''Failed to sync Google Drive files'') (error_message error),
              (w1, snd st))
         | (Inr files, w1) \<Rightarrow>
             if length files = 0
             then (RouteOk \<lparr> sr_totalFiles = 0, sr_totalChunks = 0, sr_processedFiles = [],
                             sr_failedFileDetails = [] \<rparr>, (w1, snd st))
             else
               (case route_loop sv files
                       \<lparr> ra_processedFiles = [], ra_totalChunks = 0, ra_failedFileDetails = [] \<rparr>
                       (w1, snd st) of
                  (acc, st') \<Rightarrow>
                    (RouteOk \<lparr> sr_totalFiles = length (ra_processedFiles acc),
                               sr_totalChunks = ra_totalChunks acc,
                               sr_processedFiles = ra_processedFiles acc,
                               sr_failedFileDetails = ra_failedFileDetails acc \<rparr>, st'))))"

section \<open>Retrieval: the chat route (app/api/chat/route.ts)\<close>

text \<open>\<open>s.includes(t)\<close>\<close>

fun includes_js :: "jsstring \<Rightarrow> jsstring \<Rightarrow> bool" where
  "includes_js [] t = (t = [])"
| "includes_js (c # cs) t = (take (length t) (c # cs) = t \<or> includes_js cs t)"

text \<open>\<open>matches.length > 0 ? matches[0].score || 0 : 0\<close>\<close>

definition confidenceScore :: "match list \<Rightarrow> real" where
  "confidenceScore matches =
     (if length matches > 0
      then (case mt_score (matches ! 0) of None \<Rightarrow> 0 | Some s \<Rightarrow> if s = 0 then 0 else s)
      else 0)"

definition match_field :: "(chunk_metadata \<Rightarrow> jsval) \<Rightarrow> match \<Rightarrow> jsval" where
  "match_field field m = (case mt_metadata m of None \<Rightarrow> Undefined | Some md \<Rightarrow> field md)"

text \<open>The context that the matches are joined into.\<close>

definition chat_context :: "match list \<Rightarrow> jsstring" where
  "chat_context matches =
     join (ascii ''\<newline>\<newline>'')
       (map (\<lambda>m. ascii ''['' @ to_string (or_else (match_field md_title m) (Str (ascii ''Document'')))
                   @ ascii '']: '' @ to_string (or_else (match_field md_text m) (Str (mt_id m))))
          matches)"

record source =
  src_id :: jsstring
  src_title :: jsval
  src_text :: jsval
  src_score :: real
  src_fileId :: jsval
  src_chunkIndex :: nat

definition chat_sources :: "match list \<Rightarrow> source list" where
  "chat_sources matches =
     map (\<lambda>m. \<lparr> src_id = mt_id m,
                 src_title = or_else (match_field md_title m) (Str (ascii ''Untitled Document'')),
                 src_text = or_else (match_field md_text m) (Str []),
                 src_score = (case mt_score m of None \<Rightarrow> 0 | Some s \<Rightarrow> if s = 0 then 0 else s),
                 src_fileId = or_else (match_field md_fileId m) (Str []),
                 src_chunkIndex =
                   (case mt_metadata m of None \<Rightarrow> 0
                    | Some md \<Rightarrow> (case md_chunkIndex md of None \<Rightarrow> 0 | Some k \<Rightarrow> k)) \<rparr>)
       matches"

text \<open>The message of the 500 answer, as the outer \<open>catch\<close> rewrites it.\<close>

definition chat_error_text :: "exn \<Rightarrow> jsstring" where
  "chat_error_text error =
     (let errorMessage = (case error of Error m \<Rightarrow> m | Thrown \<Rightarrow> ascii ''Failed to process chat message'')
      in if includes_js errorMessage (ascii ''API key'') \<or> includes_js errorMessage (ascii ''must be set'')
         then ascii ''Configuration error: Missing API keys. Please check your environment variables (OPENAI_API_KEY is required, PINECONE_API_KEY is optional but recommended).''
         else if includes_js errorMessage (ascii ''Pinecone'') then ascii ''Pinecone error: '' @ errorMessage
         else if includes_js errorMessage (ascii ''OpenAI'') then ascii ''OpenAI error: '' @ errorMessage
         else errorMessage)"

record chat_answer =
  ca_response :: jsstring
  ca_contextUsed :: bool
  ca_sources :: "source list"
  ca_confidenceScore :: real

datatype chat_response =
    ChatBadRequest jsstring
  | ChatServerError jsstring
  | ChatOk chat_answer

text \<open>
  The query of the index inside its own \<open>try\<close>: a failure leaves \<open>matches\<close> empty.
\<close>

definition chat_matches :: "'w services \<Rightarrow> embedding \<Rightarrow> 'w \<Rightarrow> match list \<times> 'w" where
  "chat_matches sv queryEmbedding w =
     (case queryPinecone sv queryEmbedding 5 w of
        (Inl pineconeError, w') \<Rightarrow> ([], w')
      | (Inr matches, w') \<Rightarrow> (matches, w'))"

text \<open>\<open>POST\<close> of the chat route, for a body \<open>{ message, history }\<close>.\<close>

definition chat_POST ::
  "'w services \<Rightarrow> jsval \<Rightarrow> chat_message list \<Rightarrow> 'w \<Rightarrow> chat_response \<times> 'w" where
  "chat_POST sv message history w =
     (if \<not> truthy message then (ChatBadRequest (ascii ''Message is required''), w)
      else
        (case getEmbedding sv (to_string message) w of
           (Inl error, w1) \<Rightarrow> (ChatServerError (chat_error_text error), w1)
         | (Inr queryEmbedding, w1) \<Rightarrow>
             (case chat_matches sv queryEmbedding w1 of
                (matches, w2) \<Rightarrow>
                  (case chatCompletion sv
                          (history @ [\<lparr> cm_role = ascii ''user'', cm_content = to_string message \<rparr>])
                          (Str (chat_context matches)) w2 of
                     (Inl error, w3) \<Rightarrow> (ChatServerError (chat_error_text error), w3)
                   | (Inr response, w3) \<Rightarrow>
                       (ChatOk \<lparr> ca_response = stripMarkdown sv response,
                                 ca_contextUsed = (length matches > 0),
                                 ca_sources = chat_sources matches,
                                 ca_confidenceScore = confidenceScore matches \<rparr>, w3)))))"

section \<open>Content review: the website analysis route (app/api/website/analyze/route.ts)\<close>

text \<open>The entry that the route builds for a match of \<open>detectOutdatedTerminology\<close>.\<close>

definition heuristic_issue :: "outdated_issue \<Rightarrow> issue" where
  "heuristic_issue i =
     \<lparr> is_type = Str (ascii ''Outdated Terminology''),
       is_description = Str (ascii ''Found outdated term: '' @ oi_term i @
         ascii ''. This should be updated to acknowledge Learn as current while promoting Ultra adoption.''),
       is_currentText = Str (oi_term i),
       is_outdatedText = Str (oi_term i),
       is_suggestedReplacement =
         Str (ascii ''Blackboard Ultra (or appropriate messaging acknowledging Learn as current)''),
       is_reasoning =
         Str (ascii ''Terminology needs to reflect that Learn is current but Ultra is the future direction''),
       is_location = oi_location i,
       is_severity = Str (severity_string (oi_severity i)),
       is_priority = Str (if oi_severity i = High then ascii ''high'' else ascii ''medium'') \<rparr>"



text \<open>\<open>...(field || [])\<close>\<close>

fun spread :: "'a spreadable \<Rightarrow> exn + 'a list" where
  "spread Absent = Inr []"
| "spread (Items xs) = Inr xs"
| "spread (NotIterable m) = Inl (Error m)"

text \<open>\<open>xs.findIndex(p)\<close>\<close>

fun findIndex :: "('a \<Rightarrow> bool) \<Rightarrow> 'a list \<Rightarrow> int" where
  "findIndex p [] = - 1"
| "findIndex p (x # xs) =
     (if p x then 0 else if findIndex p xs = - 1 then - 1 else findIndex p xs + 1)"

text \<open>The two values that the duplicate filter compares with \<open>===\<close>.\<close>

definition issue_key :: "issue \<Rightarrow> jsval \<times> jsval" where
  "issue_key i = (or_else (is_currentText i) (is_outdatedText i), is_location i)"

definition allIssues :: "issue list \<Rightarrow> outdated_issue list \<Rightarrow> issue list" where
  "allIssues modelIssues outdatedIssues = modelIssues @ map heuristic_issue outdatedIssues"

text \<open>
  \<open>allIssues.filter((issue, index, self) => index === self.findIndex((i) => ...))\<close>
\<close>

definition uniqueIssues :: "issue list \<Rightarrow> issue list" where
  "uniqueIssues self =
     map snd
       (filter (\<lambda>(index, issue). int index = findIndex (\<lambda>i. issue_key i = issue_key issue) self)
          (enumerate 0 self))"

text \<open>\<open>i.description || `${i.type}: ${i.description}`\<close>\<close>

definition risk_text :: "issue \<Rightarrow> jsstring" where
  "risk_text i =
     (if truthy (is_description i) then to_string (is_description i)
      else to_string (is_type i) @ ascii '': '' @ to_string (is_description i))"

definition allRisks :: "jsstring list \<Rightarrow> issue list \<Rightarrow> jsstring list" where
  "allRisks modelRisks unique = modelRisks @ map risk_text unique"

definition overallRiskLevel ::
  "jsval \<Rightarrow> outdated_issue list \<Rightarrow> issue list \<Rightarrow> jsstring list \<Rightarrow> jsstring" where
  "overallRiskLevel riskLevel outdatedIssues unique risks =
     (let highSeverityIssues = length (filter (\<lambda>i. is_severity i = Str (ascii ''high'')) unique);
          mediumSeverityIssues = length (filter (\<lambda>i. is_severity i = Str (ascii ''medium'')) unique);
          highPriorityIssues =
            length (filter (\<lambda>i. is_priority i = Str (ascii ''immediate'') \<or>
                                 is_priority i = Str (ascii ''high'')) unique)
      in if highSeverityIssues > 0 \<or> highPriorityIssues > 0 \<or> length risks > 5 then ascii ''high''
         else if mediumSeverityIssues > 0 \<or> length risks > 2 then ascii ''medium''
         else to_string
                (or_else riskLevel
                   (Str (if length outdatedIssues > 0 then ascii ''high'' else ascii ''low''))))"

text \<open>
  An entry of \<open>results\<close> (without the summary and the fields copied from the analysis
  unchanged).
\<close>

record url_result =
  ur_url :: jsstring
  ur_success :: bool
  ur_error :: "jsstring option"
  ur_risks :: "jsstring list"
  ur_riskLevel :: jsstring
  ur_issues :: "issue list"

text \<open>
  From \<open>allIssues\<close> to the entry pushed for a page that was fetched; a \<open>TypeError\<close> of a
  spread escapes to the \<open>catch\<close> of the loop.
\<close>

definition aggregate :: "jsstring \<Rightarrow> analysis \<Rightarrow> outdated_issue list \<Rightarrow> exn + url_result" where
  "aggregate url a outdatedIssues =
     (case spread (an_issues a) of
        Inl e \<Rightarrow> Inl e
      | Inr modelIssues \<Rightarrow>
          (case spread (an_risks a) of
             Inl e \<Rightarrow> Inl e
           | Inr modelRisks \<Rightarrow>
               Inr \<lparr> ur_url = url, ur_success = True, ur_error = None,
                     ur_risks = allRisks modelRisks (uniqueIssues (allIssues modelIssues outdatedIssues)),
                     ur_riskLevel =
                       overallRiskLevel (an_riskLevel a) outdatedIssues
                         (uniqueIssues (allIssues modelIssues outdatedIssues))
                         (allRisks modelRisks (uniqueIssues (allIssues modelIssues outdatedIssues))),
                     ur_issues = uniqueIssues (allIssues modelIssues outdatedIssues) \<rparr>))"







section \<open>Reference behaviour, in the specification's words\<close>

text \<open>
  An index that answers with no match wherever the given one fails, and is the given one
  otherwise.
\<close>

definition no_match_on_failure :: "'w services \<Rightarrow> 'w services" where
  "no_match_on_failure sv =
     sv\<lparr> queryPinecone := \<lambda>v k w.
            (case queryPinecone sv v k w of (Inl e, w') \<Rightarrow> (Inr [], w') | (Inr ms, w') \<Rightarrow> (Inr ms, w')) \<rparr>"

text \<open>
  Deduplication by key, first occurrence wins: walking the list, an issue is kept unless an
  earlier one had its key.
\<close>

fun keep_first :: "(jsval \<times> jsval) set \<Rightarrow> issue list \<Rightarrow> issue list" where
  "keep_first seen [] = []"
| "keep_first seen (i # rest) =
     (if issue_key i \<in> seen then keep_first seen rest
      else i # keep_first (insert (issue_key i) seen) rest)"

text \<open>
  The overall severity as the specification states its thresholds, over the issues left
  after deduplication.
\<close>

definition claimed_severity :: "issue list \<Rightarrow> jsstring" where
  "claimed_severity unique =
     (if (\<exists>i \<in> set unique. is_severity i = Str (ascii ''high'') \<or>
            is_priority i = Str (ascii ''immediate'') \<or> is_priority i = Str (ascii ''high'')) \<or>
         length unique > 5 then ascii ''high''
      else if (\<exists>i \<in> set unique. is_severity i = Str (ascii ''medium'')) \<or> length unique > 2
      then ascii ''medium''
      else ascii ''low'')"










section \<open>Concrete inputs\<close>

text \<open>
  One paragraph; two short paragraphs that make one sentence; two short sentences in two
  short paragraphs.
\<close>

definition text_one_paragraph :: jsstring where
  "text_one_paragraph = ascii ''The first paragraph of the text.''"

definition text_short_paragraphs :: jsstring where
  "text_short_paragraphs = ascii ''aaaaaaaaaaaaaaa\<newline>\<newline>bbbbbbbbbbbbbbb''"

definition text_short_sentences :: jsstring where
  "text_short_sentences = ascii ''aaaaaaaaaaaaaaa. \<newline>\<newline>bbbbbbbbbbbbbbb. ''"

text \<open>
  Collaborators that all succeed; the world is the number of calls made so far. One file
  in the folder, one match in the index.
\<close>

definition demo_file :: drive_file where
  "demo_file = \<lparr> f_id = Str (ascii ''f1''), f_name = Str (ascii ''notes.txt''),
                  f_mimeType = Str (ascii ''text/plain''), f_modifiedTime = Undefined \<rparr>"

definition demo_match :: match where
  "demo_match = \<lparr> mt_id = ascii ''f1_chunk_0'', mt_score = Some (3 / 4),
      mt_metadata = Some \<lparr> md_title = Str (ascii ''notes.txt''), md_text = Str text_one_paragraph,
        md_fileId = Str (ascii ''f1''), md_chunkIndex = Some 0,
        md_mimeType = Str (ascii ''text/plain''), md_modifiedTime = Undefined \<rparr> \<rparr>"

definition demo_services :: "nat services" where
  "demo_services =
     \<lparr> listFilesInFolder = \<lambda>folder w. (Inr [demo_file], Suc w),
       getFileContent = \<lambda>fileId mimeType w. (Inr [0x61], Suc w),
       extractTextFromDocument = \<lambda>buffer mimeType w. (Inr text_one_paragraph, Suc w),
       getEmbedding = \<lambda>chunk w. (Inr [1 / 2], Suc w),
       upsertFailure = \<lambda>vectors w. (None, Suc w),
       queryPinecone = \<lambda>v k w. (Inr [demo_match], Suc w),
       chatCompletion = \<lambda>messages context w. (Inr (ascii ''An answer.''), Suc w),
       fetchPageContent = \<lambda>url w. (Some \<lparr> pg_html = text_one_paragraph, pg_text = text_one_paragraph \<rparr>, Suc w),
       detectOutdatedTerminology = \<lambda>pageText. [],
       analysisPrompt = \<lambda>pageText outdatedIssues ultraContext. pageText,
       parseAnalysis = \<lambda>response. None,
       stripMarkdown = \<lambda>response. response \<rparr>"

text \<open>The same collaborators with an index whose query throws, and with an empty index.\<close>

definition failing_index_services :: "nat services" where
  "failing_index_services =
     demo_services\<lparr> queryPinecone := \<lambda>v k w. (Inl (Error (ascii ''Pinecone is down'')), Suc w) \<rparr>"

definition empty_index_services :: "nat services" where
  "empty_index_services = demo_services\<lparr> queryPinecone := \<lambda>v k w. (Inr [], Suc w) \<rparr>"

text \<open>
  Two issues with the same current text and location and different descriptions; six
  heuristic matches of low severity at six places; three answers of the model without
  issues.
\<close>

definition demo_issue_a :: issue where
  "demo_issue_a =
     \<lparr> is_type = Str (ascii ''Feature Reference''), is_description = Str (ascii ''Mentions the Grade Center''),
       is_currentText = Str (ascii ''Grade Center''), is_outdatedText = Undefined,
       is_suggestedReplacement = Str (ascii ''Gradebook''), is_reasoning = Undefined,
       is_location = Str (ascii ''Section 1''), is_severity = Str (ascii ''low''),
       is_priority = Str (ascii ''low'') \<rparr>"

definition demo_issue_b :: issue where
  "demo_issue_b = demo_issue_a\<lparr> is_description := Str (ascii ''Uses a Learn feature name'') \<rparr>"

definition low_issue :: "string \<Rightarrow> outdated_issue" where
  "low_issue place =
     \<lparr> oi_term = ascii ''Bb Learn'', oi_context = ascii ''Open Bb Learn.'', oi_severity = Low,
       oi_location = Str (ascii place) \<rparr>"

definition six_low_issues :: "outdated_issue list" where
  "six_low_issues =
     [low_issue ''Sentence 1'', low_issue ''Sentence 2'', low_issue ''Sentence 3'',
      low_issue ''Sentence 4'', low_issue ''Sentence 5'', low_issue ''Sentence 6'']"

definition quiet_analysis :: analysis where
  "quiet_analysis = \<lparr> an_risks = Items [], an_riskLevel = Str (ascii ''low''), an_issues = Items [] \<rparr>"

definition model_says_high :: analysis where
  "model_says_high = \<lparr> an_risks = Items [], an_riskLevel = Str (ascii ''high''), an_issues = Items [] \<rparr>"

definition three_risks :: analysis where
  "three_risks =
     \<lparr> an_risks = Items [ascii ''Old screenshots'', ascii ''Old menu names'', ascii ''No Ultra link''],
       an_riskLevel = Str (ascii ''low''), an_issues = Items [] \<rparr>"



text \<open>
  A folder id; a text of two paragraphs; an embedding model that fails on the second
  paragraph; a listing with a file without a name and a file whose download throws an
  error without a message; a listing that fails; an empty folder.
\<close>

definition folder :: jsval where "folder = Str (ascii ''folder-1'')"

definition text_two_paragraphs :: jsstring where
  "text_two_paragraphs =
     ascii ''The first paragraph of the text.\<newline>\<newline>The second paragraph of the text.''"

definition flaky_embedding_services :: "nat services" where
  "flaky_embedding_services =
     demo_services\<lparr>
       extractTextFromDocument := \<lambda>buffer mimeType w. (Inr text_two_paragraphs, Suc w),
       getEmbedding := \<lambda>chunk w.
         (if chunk = ascii ''The second paragraph of the text.''
          then Inl (Error (ascii ''Rate limit reached'')) else Inr [1 / 2], Suc w) \<rparr>"







text \<open>
  No call made and an empty index; the state after a run of the script from there, after
  a second run of the script, and after a run of the route that follows the first run of
  the script.
\<close>

definition fresh_state :: "nat \<times> index" where
  "fresh_state = (0, Map.empty)"

definition state_after_script :: "nat \<times> index" where
  "state_after_script = snd (vectorizeDriveFiles demo_services folder fresh_state)"

definition state_after_script_twice :: "nat \<times> index" where
  "state_after_script_twice = snd (vectorizeDriveFiles demo_services folder state_after_script)"

definition state_after_script_then_route :: "nat \<times> index" where
  "state_after_script_then_route = snd (sync_POST demo_services folder Undefined state_after_script)"




section \<open>The chunker\<close>

lemma dropWhile_trim_start: "dropWhile is_white_space (trim s) = trim s"
proof (cases "dropWhile is_white_space s")
  case Nil
  show ?thesis unfolding trim_def Nil by simp
next
  case (Cons x a')
  then have nx: "\<not> is_white_space x"
    by (metis hd_dropWhile list.sel(1) list.distinct(1))
  have "dropWhile is_white_space (rev a' @ [x]) = dropWhile is_white_space (rev a') @ [x]
        \<or> dropWhile is_white_space (rev a' @ [x]) = [x]"
    using nx by (simp add: dropWhile_append)
  then obtain zs where "dropWhile is_white_space (rev (x # a')) = zs @ [x]"
    by auto
  then have "trim s = x # rev zs"
    using Cons by (simp add: trim_def)
  then show ?thesis using nx by simp
qed

lemma trim_trim: "trim (trim s) = trim s"
proof -
  have "dropWhile is_white_space (rev (trim s)) = rev (trim s)"
    by (simp add: trim_def dropWhile_idem)
  then show ?thesis
    unfolding trim_def[of "trim s"] dropWhile_trim_start by simp
qed

lemma length_trim_le: "length (trim s) \<le> length s"
proof -
  have "length (trim s) \<le> length (dropWhile is_white_space s)"
    unfolding trim_def by (metis length_dropWhile_le length_rev)
  also have "\<dots> \<le> length s" by (rule length_dropWhile_le)
  finally show ?thesis .
qed

lemma length_slice_le: "length (slice s a (a + n)) \<le> n"
  by (simp add: slice_def)

lemma window_count: "0 < st \<Longrightarrow> (j * st < len) = (j < (len + st - 1) div st)" for st :: nat
proof
  assume st: "0 < st" and lt: "j * st < len"
  then have "j * st + st \<le> len + st - 1" by simp
  then have "(j + 1) * st \<le> len + st - 1" by (simp add: algebra_simps)
  then have "j + 1 \<le> (len + st - 1) div st"
    using st by (simp add: less_eq_div_iff_mult_less_eq)
  then show "j < (len + st - 1) div st" by simp
next
  assume st: "0 < st" and lt: "j < (len + st - 1) div st"
  then have "j + 1 \<le> (len + st - 1) div st" by simp
  then have "(j + 1) * st \<le> len + st - 1"
    using st by (simp add: less_eq_div_iff_mult_less_eq)
  then show "j * st < len" using st by (simp add: algebra_simps)
qed

lemma window_loop_windows_from:
  assumes n: "\<And>j. (j * (MAX_CHUNK_SIZE - OVERLAP) < length s) = (j < n)"
  shows "window_loop s (k * (MAX_CHUNK_SIZE - OVERLAP)) acc =
     acc @ filter (\<lambda>c. length c > 20)
       (map (\<lambda>k. trim (slice s (k * (MAX_CHUNK_SIZE - OVERLAP)) (k * (MAX_CHUNK_SIZE - OVERLAP) + MAX_CHUNK_SIZE)))
          [k ..< n])"
proof (induction "n - k" arbitrary: k acc)
  case 0
  then have "n \<le> k" by simp
  then show ?case by (simp add: window_loop.simps[of s] n)
next
  case (Suc d)
  then have kn: "k < n" by simp
  have d: "d = n - Suc k" using Suc.hyps by simp
  have step: "k * (MAX_CHUNK_SIZE - OVERLAP) + (MAX_CHUNK_SIZE - OVERLAP) = Suc k * (MAX_CHUNK_SIZE - OVERLAP)"
    by simp
  show ?case
    using kn Suc.hyps(1)[OF d]
    by (subst window_loop.simps) (simp add: n step upt_conv_Cons del: mult_Suc)
qed

lemma window_loop_windows: "window_loop s 0 acc = acc @ windows s"
proof -
  have "0 < MAX_CHUNK_SIZE - OVERLAP" by (simp add: MAX_CHUNK_SIZE_def OVERLAP_def)
  from window_loop_windows_from[of s _ 0 acc, OF window_count[OF this]]
  show ?thesis by (simp add: windows_def)
qed

lemma push_fragments_tier: "push_fragments fs acc = acc @ tier_chunks fs"
  by (induction fs arbitrary: acc) (simp_all add: tier_chunks_def window_loop_windows)


lemma windows_bounds:
  assumes "c \<in> set (windows s)"
  shows "length c \<le> MAX_CHUNK_SIZE \<and> 20 < length c \<and> trim c = c"
proof -
  from assms obtain k where c: "c = trim (slice s (k * (MAX_CHUNK_SIZE - OVERLAP)) (k * (MAX_CHUNK_SIZE - OVERLAP) + MAX_CHUNK_SIZE))"
    and len: "20 < length c"
    by (auto simp: windows_def)
  have "length c \<le> length (slice s (k * (MAX_CHUNK_SIZE - OVERLAP)) (k * (MAX_CHUNK_SIZE - OVERLAP) + MAX_CHUNK_SIZE))"
    unfolding c by (rule length_trim_le)
  also have "\<dots> \<le> MAX_CHUNK_SIZE" by (rule length_slice_le)
  finally have "length c \<le> MAX_CHUNK_SIZE" .
  moreover have "trim c = c" unfolding c by (rule trim_trim)
  ultimately show ?thesis using len by simp
qed

lemma tier_chunks_bounds:
  assumes fs: "\<forall>f \<in> set fs. 20 < length (trim f)" and c: "c \<in> set (tier_chunks fs)"
  shows "length c \<le> MAX_CHUNK_SIZE \<and> 20 < length (trim c)"
proof -
  from c obtain f where f: "f \<in> set fs"
    and cf: "c \<in> set (if length f \<le> MAX_CHUNK_SIZE then [f] else windows f)"
    by (auto simp: tier_chunks_def)
  show ?thesis
  proof (cases "length f \<le> MAX_CHUNK_SIZE")
    case True
    then have "c = f" using cf by simp
    then show ?thesis using True fs f by simp
  next
    case False
    then have "c \<in> set (windows f)" using cf by simp
    from windows_bounds[OF this] show ?thesis by simp
  qed
qed

text \<open>
  Claim C3. The three tiers are tried in order and the first whose split leaves a
  fragment above the minimum length is used: the sentence tier only when no paragraph is
  left, the fixed-size tier only when no sentence is left either, and the chunks are those
  of the tier used and of no other.
\<close>

theorem chunk_text_tier_fallback:
  "(paragraphChunks text \<noteq> [] \<longrightarrow> chunk_text text = tier_chunks (paragraphChunks text)) \<and>
   (paragraphChunks text = [] \<and> sentenceChunks text \<noteq> [] \<longrightarrow>
      chunk_text text = tier_chunks (sentenceChunks text)) \<and>
   (paragraphChunks text = [] \<and> sentenceChunks text = [] \<longrightarrow> chunk_text text = windows text)"
  using push_fragments_tier[of _ "[]"] window_loop_windows[of "text" "[]"]
  by (simp add: chunk_text_def)

theorem chunk_text_tier_fallback_witness:
  "paragraphChunks text_one_paragraph \<noteq> [] \<and>
   chunk_text text_one_paragraph = tier_chunks (paragraphChunks text_one_paragraph) \<and>
   paragraphChunks text_short_paragraphs = [] \<and> sentenceChunks text_short_paragraphs \<noteq> [] \<and>
   chunk_text text_short_paragraphs = tier_chunks (sentenceChunks text_short_paragraphs) \<and>
   paragraphChunks text_short_sentences = [] \<and> sentenceChunks text_short_sentences = [] \<and>
   chunk_text text_short_sentences = windows text_short_sentences"
proof -
  have a: "paragraphChunks text_one_paragraph \<noteq> []" by code_simp
  have b: "paragraphChunks text_short_paragraphs = []" by code_simp
  have c: "sentenceChunks text_short_paragraphs \<noteq> []" by code_simp
  have d: "paragraphChunks text_short_sentences = []" by code_simp
  have e: "sentenceChunks text_short_sentences = []" by code_simp
  show ?thesis
    using chunk_text_tier_fallback[of text_one_paragraph]
      chunk_text_tier_fallback[of text_short_paragraphs]
      chunk_text_tier_fallback[of text_short_sentences] a b c d e
    by simp
qed

text \<open>
  Claim C4. With the maximum size 2000, the overlap 200 and the minimum length 20, every
  chunk that the chunker emits has at most 2000 code units and, once trimmed, more than 20:
  a fragment of 20 or fewer is never emitted.
\<close>

theorem chunk_text_bounds:
  assumes "c \<in> set (chunk_text text)"
  shows "length c \<le> 2000 \<and> 20 < length (trim c)"
proof -
  have p: "\<forall>f \<in> set (paragraphChunks text). 20 < length (trim f)"
    by (simp add: paragraphChunks_def)
  have s: "\<forall>f \<in> set (sentenceChunks text). 20 < length (trim f)"
    by (simp add: sentenceChunks_def)
  have "length c \<le> MAX_CHUNK_SIZE \<and> 20 < length (trim c)"
  proof (cases "paragraphChunks text = []")
    case False
    then have "c \<in> set (tier_chunks (paragraphChunks text))"
      using assms by (simp add: chunk_text_def push_fragments_tier)
    from tier_chunks_bounds[OF p this] show ?thesis .
  next
    case True
    note no_paragraph = this
    show ?thesis
    proof (cases "sentenceChunks text = []")
      case False
      then have "c \<in> set (tier_chunks (sentenceChunks text))"
        using assms no_paragraph by (simp add: chunk_text_def push_fragments_tier)
      from tier_chunks_bounds[OF s this] show ?thesis .
    next
      case True
      then have "c \<in> set (windows text)"
        using assms no_paragraph by (simp add: chunk_text_def window_loop_windows)
      from windows_bounds[OF this] show ?thesis by simp
    qed
  qed
  then show ?thesis by (simp add: MAX_CHUNK_SIZE_def)
qed

theorem chunk_text_bounds_witness:
  "text_one_paragraph \<in> set (chunk_text text_one_paragraph) \<and>
   length text_one_paragraph \<le> 2000 \<and> 20 < length (trim text_one_paragraph)"
proof -
  have h: "text_one_paragraph \<in> set (chunk_text text_one_paragraph)" by code_simp
  show ?thesis using h chunk_text_bounds[OF h] by simp
qed

section \<open>The chat route\<close>

lemma confidenceScore_Nil: "confidenceScore [] = 0"
  by (simp add: confidenceScore_def)

lemma confidenceScore_Cons: "mt_score m = Some s \<Longrightarrow> confidenceScore (m # ms) = s"
  by (simp add: confidenceScore_def)

text \<open>
  Claim C7. When the index answers the query with a list of matches, the confidence score
  of the answer is 0 for the empty list and otherwise the similarity score of the first
  match.
\<close>

theorem chat_confidence:
  assumes "truthy message"
    and "getEmbedding sv (to_string message) w = (Inr q, w1)"
    and "queryPinecone sv q 5 w1 = (Inr matches, w2)"
    and "chatCompletion sv (history @ [\<lparr> cm_role = ascii ''user'', cm_content = to_string message \<rparr>])
           (Str (chat_context matches)) w2 = (Inr response, w3)"
  shows "\<exists>a. chat_POST sv message history w = (ChatOk a, w3) \<and>
           (matches = [] \<longrightarrow> ca_confidenceScore a = 0) \<and>
           (\<forall>m ms s. matches = m # ms \<and> mt_score m = Some s \<longrightarrow> ca_confidenceScore a = s)"
  using assms
  by (auto simp: chat_POST_def chat_matches_def confidenceScore_Nil confidenceScore_Cons)

theorem chat_confidence_witness:
  "(\<exists>a. chat_POST demo_services (Str (ascii ''What is it?'')) [] 0 = (ChatOk a, 3) \<and>
        ca_confidenceScore a = 3 / 4) \<and>
   (\<exists>a. chat_POST empty_index_services (Str (ascii ''What is it?'')) [] 0 = (ChatOk a, 3) \<and>
        ca_confidenceScore a = 0)"
proof -
  have 1: "truthy (Str (ascii ''What is it?''))" by (simp add: ascii_def)
  have 2: "getEmbedding demo_services (to_string (Str (ascii ''What is it?''))) 0 = (Inr [1 / 2], 1)"
    by (simp add: demo_services_def)
  have 3: "queryPinecone demo_services [1 / 2] 5 1 = (Inr [demo_match], 2)"
    by (simp add: demo_services_def)
  have 4: "chatCompletion demo_services
             ([] @ [\<lparr> cm_role = ascii ''user'', cm_content = to_string (Str (ascii ''What is it?'')) \<rparr>])
             (Str (chat_context [demo_match])) 2 = (Inr (ascii ''An answer.''), 3)"
    by (simp add: demo_services_def)
  have 5: "mt_score demo_match = Some (3 / 4)" by (simp add: demo_match_def)
  from chat_confidence[OF 1 2 3 4] obtain a
    where a: "chat_POST demo_services (Str (ascii ''What is it?'')) [] 0 = (ChatOk a, 3)"
      and c: "\<forall>m ms s. [demo_match] = m # ms \<and> mt_score m = Some s \<longrightarrow> ca_confidenceScore a = s"
    by blast
  from c 5 have "ca_confidenceScore a = 3 / 4" by blast
  with a have first: "\<exists>a. chat_POST demo_services (Str (ascii ''What is it?'')) [] 0 = (ChatOk a, 3) \<and>
        ca_confidenceScore a = 3 / 4"
    by blast
  have 6: "getEmbedding empty_index_services (to_string (Str (ascii ''What is it?''))) 0 = (Inr [1 / 2], 1)"
    by (simp add: demo_services_def empty_index_services_def)
  have 7: "queryPinecone empty_index_services [1 / 2] 5 1 = (Inr [], 2)"
    by (simp add: empty_index_services_def)
  have 8: "chatCompletion empty_index_services
             ([] @ [\<lparr> cm_role = ascii ''user'', cm_content = to_string (Str (ascii ''What is it?'')) \<rparr>])
             (Str (chat_context [])) 2 = (Inr (ascii ''An answer.''), 3)"
    by (simp add: demo_services_def empty_index_services_def)
  from chat_confidence[OF 1 6 7 8]
  have "\<exists>a. chat_POST empty_index_services (Str (ascii ''What is it?'')) [] 0 = (ChatOk a, 3) \<and>
        ca_confidenceScore a = 0"
    by blast
  with first show ?thesis by blast
qed

lemma chat_matches_no_match_on_failure:
  "chat_matches (no_match_on_failure sv) q w = chat_matches sv q w"
  by (simp add: chat_matches_def no_match_on_failure_def split: prod.splits sum.splits)

text \<open>
  Claim C6. When the query of the index fails, the chat route answers exactly as it does
  with an index that returns no match: the model is still asked, with an empty context,
  and a successful answer comes back with no source, confidence 0 and \<open>contextUsed\<close> false.
\<close>

theorem chat_degrades_on_query_failure:
  assumes "truthy message"
    and "getEmbedding sv (to_string message) w = (Inr q, w1)"
    and "queryPinecone sv q 5 w1 = (Inl e, w2)"
  shows "chat_POST sv message history w = chat_POST (no_match_on_failure sv) message history w \<and>
         chat_POST sv message history w =
           (case chatCompletion sv (history @ [\<lparr> cm_role = ascii ''user'', cm_content = to_string message \<rparr>])
                   (Str []) w2 of
              (Inl error, w3) \<Rightarrow> (ChatServerError (chat_error_text error), w3)
            | (Inr response, w3) \<Rightarrow>
                (ChatOk \<lparr> ca_response = stripMarkdown sv response, ca_contextUsed = False,
                          ca_sources = [], ca_confidenceScore = 0 \<rparr>, w3))"
proof
  have "getEmbedding (no_match_on_failure sv) = getEmbedding sv"
       "chatCompletion (no_match_on_failure sv) = chatCompletion sv"
       "stripMarkdown (no_match_on_failure sv) = stripMarkdown sv"
    by (simp_all add: no_match_on_failure_def)
  note same = this
  show "chat_POST sv message history w = chat_POST (no_match_on_failure sv) message history w"
    by (simp add: chat_POST_def chat_matches_no_match_on_failure same split: prod.splits sum.splits)
next
  have "chat_matches sv q w1 = ([], w2)"
    using assms(3) by (simp add: chat_matches_def)
  then show "chat_POST sv message history w =
           (case chatCompletion sv (history @ [\<lparr> cm_role = ascii ''user'', cm_content = to_string message \<rparr>])
                   (Str []) w2 of
              (Inl error, w3) \<Rightarrow> (ChatServerError (chat_error_text error), w3)
            | (Inr response, w3) \<Rightarrow>
                (ChatOk \<lparr> ca_response = stripMarkdown sv response, ca_contextUsed = False,
                          ca_sources = [], ca_confidenceScore = 0 \<rparr>, w3))"
    using assms(1,2)
    by (simp add: chat_POST_def chat_context_def chat_sources_def confidenceScore_def
             split: prod.splits sum.splits)
qed

theorem chat_degrades_on_query_failure_witness:
  "chat_POST failing_index_services (Str (ascii ''What is it?'')) [] 0 =
     (ChatOk \<lparr> ca_response = ascii ''An answer.'', ca_contextUsed = False,
               ca_sources = [], ca_confidenceScore = 0 \<rparr>, 3) \<and>
   chat_POST (no_match_on_failure failing_index_services) (Str (ascii ''What is it?'')) [] 0 =
     (ChatOk \<lparr> ca_response = ascii ''An answer.'', ca_contextUsed = False,
               ca_sources = [], ca_confidenceScore = 0 \<rparr>, 3)"
proof -
  have 1: "truthy (Str (ascii ''What is it?''))" by (simp add: ascii_def)
  have 2: "getEmbedding failing_index_services (to_string (Str (ascii ''What is it?''))) 0 = (Inr [1 / 2], 1)"
    by (simp add: demo_services_def failing_index_services_def)
  have 3: "queryPinecone failing_index_services [1 / 2] 5 1 = (Inl (Error (ascii ''Pinecone is down'')), 2)"
    by (simp add: failing_index_services_def)
  have 4: "chatCompletion failing_index_services
             ([] @ [\<lparr> cm_role = ascii ''user'', cm_content = to_string (Str (ascii ''What is it?'')) \<rparr>])
             (Str []) 2 = (Inr (ascii ''An answer.''), 3)"
    by (simp add: demo_services_def failing_index_services_def)
  have 5: "stripMarkdown failing_index_services = (\<lambda>response. response)"
    by (simp add: demo_services_def failing_index_services_def)
  note t = chat_degrades_on_query_failure[OF 1 2 3, of "[]"]
  from t[THEN conjunct2] 4 5 have a: "chat_POST failing_index_services (Str (ascii ''What is it?'')) [] 0 =
     (ChatOk \<lparr> ca_response = ascii ''An answer.'', ca_contextUsed = False,
               ca_sources = [], ca_confidenceScore = 0 \<rparr>, 3)"
    by simp
  from t[THEN conjunct1] have "chat_POST (no_match_on_failure failing_index_services) (Str (ascii ''What is it?'')) [] 0 =
     chat_POST failing_index_services (Str (ascii ''What is it?'')) [] 0"
    by simp
  with a show ?thesis by simp
qed


section \<open>Aggregation of issues\<close>

lemma findIndex_ge: "- 1 \<le> findIndex p xs"
  by (induction xs) auto

lemma findIndex_none: "findIndex p xs = - 1 \<longleftrightarrow> (\<forall>x \<in> set xs. \<not> p x)"
proof (induction xs)
  case Nil
  show ?case by simp
next
  case (Cons x xs)
  have "findIndex p xs + 1 \<noteq> - 1" using findIndex_ge[of p xs] by simp
  with Cons show ?case by auto
qed

lemma findIndex_lt: "findIndex p xs < int (length xs)"
  by (induction xs) auto

lemma findIndex_append:
  "findIndex p (ps @ xs) =
     (if \<exists>x \<in> set ps. p x then findIndex p ps
      else if findIndex p xs = - 1 then - 1 else int (length ps) + findIndex p xs)"
proof (induction ps)
  case Nil
  show ?case by simp
next
  case (Cons a ps)
  show ?case
  proof (cases "p a")
    case True
    then show ?thesis by simp
  next
    case False
    show ?thesis
    proof (cases "\<exists>x \<in> set ps. p x")
      case True
      then show ?thesis using False Cons by simp
    next
      case no: False
      then have none: "findIndex p ps = - 1" by (simp add: findIndex_none)
      show ?thesis
      proof (cases "findIndex p xs = - 1")
        case True
        then show ?thesis using False no Cons by simp
      next
        case f: False
        have "int (length ps) + findIndex p xs \<noteq> - 1"
          using findIndex_ge[of p xs] f by simp
        then show ?thesis using False no Cons f by simp
      qed
    qed
  qed
qed

lemma first_index_here:
  "(findIndex (\<lambda>i. issue_key i = issue_key x) (ps @ x # xs) = int (length ps)) \<longleftrightarrow>
   issue_key x \<notin> issue_key ` set ps"
proof (cases "issue_key x \<in> issue_key ` set ps")
  case True
  then obtain y where "y \<in> set ps" "issue_key y = issue_key x"
    by (metis imageE)
  then have ex: "\<exists>y \<in> set ps. issue_key y = issue_key x" by blast
  then have "findIndex (\<lambda>i. issue_key i = issue_key x) (ps @ x # xs) = findIndex (\<lambda>i. issue_key i = issue_key x) ps"
    by (simp add: findIndex_append)
  moreover have "findIndex (\<lambda>i. issue_key i = issue_key x) ps < int (length ps)"
    by (rule findIndex_lt)
  ultimately have "findIndex (\<lambda>i. issue_key i = issue_key x) (ps @ x # xs) \<noteq> int (length ps)"
    by simp
  with True show ?thesis by simp
next
  case False
  then have "\<not> (\<exists>y \<in> set ps. issue_key y = issue_key x)"
    by (metis imageI)
  then have "findIndex (\<lambda>i. issue_key i = issue_key x) (ps @ x # xs) = int (length ps)"
    by (simp add: findIndex_append)
  with False show ?thesis by simp
qed

lemma indexed_filter_keep_first:
  "map snd
     (filter (\<lambda>(index, issue). int index = findIndex (\<lambda>i. issue_key i = issue_key issue) (ps @ xs))
        (enumerate (length ps) xs)) =
   keep_first (issue_key ` set ps) xs"
proof (induction xs arbitrary: ps)
  case Nil
  show ?case by simp
next
  case (Cons x xs)
  have rest: "map snd
     (filter (\<lambda>(index, issue). int index = findIndex (\<lambda>i. issue_key i = issue_key issue) (ps @ x # xs))
        (enumerate (Suc (length ps)) xs)) =
     keep_first (insert (issue_key x) (issue_key ` set ps)) xs"
    using Cons[of "ps @ [x]"] by simp
  have here: "(int (length ps) = findIndex (\<lambda>i. issue_key i = issue_key x) (ps @ x # xs)) \<longleftrightarrow>
     issue_key x \<notin> issue_key ` set ps"
    using first_index_here[of x ps xs] by auto
  show ?case
  proof (cases "issue_key x \<in> issue_key ` set ps")
    case True
    then have "insert (issue_key x) (issue_key ` set ps) = issue_key ` set ps" by auto
    with rest here True show ?thesis by simp
  next
    case False
    with rest here show ?thesis by simp
  qed
qed

lemma uniqueIssues_keep_first: "uniqueIssues xs = keep_first {} xs"
  using indexed_filter_keep_first[of "[]" xs] by (simp add: uniqueIssues_def)

lemma keep_first_keys:
  "distinct (map issue_key (keep_first seen xs)) \<and>
   issue_key ` set (keep_first seen xs) \<inter> seen = {} \<and>
   issue_key ` set (keep_first seen xs) \<union> seen = issue_key ` set xs \<union> seen"
proof (induction xs arbitrary: seen)
  case Nil
  show ?case by simp
next
  case (Cons x xs)
  show ?case
  proof (cases "issue_key x \<in> seen")
    case True
    then show ?thesis using Cons[of seen] by auto
  next
    case False
    then show ?thesis using Cons[of "insert (issue_key x) seen"] by auto
  qed
qed

lemma keep_first_distinct:
  "distinct (map issue_key xs) \<Longrightarrow> issue_key ` set xs \<inter> seen = {} \<Longrightarrow> keep_first seen xs = xs"
  by (induction xs arbitrary: seen) auto

lemma keep_first_sublist: "set (keep_first seen xs) \<subseteq> set xs"
  by (induction xs arbitrary: seen) auto


text \<open>
  Claim C9. The issues of the model and those of the heuristics are put in one list and
  deduplicated by the key (current text or its equivalent, location), the first occurrence
  winning: no two issues left share a key, and of two issues with the same key only the
  first is left, whatever their descriptions.
\<close>

theorem uniqueIssues_first_occurrence:
  "uniqueIssues (allIssues modelIssues outdatedIssues) =
     keep_first {} (modelIssues @ map heuristic_issue outdatedIssues) \<and>
   distinct (map issue_key (uniqueIssues (allIssues modelIssues outdatedIssues))) \<and>
   (issue_key a = issue_key b \<longrightarrow> uniqueIssues (allIssues [a, b] []) = [a])"
proof (intro conjI impI)
  show "uniqueIssues (allIssues modelIssues outdatedIssues) =
     keep_first {} (modelIssues @ map heuristic_issue outdatedIssues)"
    by (simp add: uniqueIssues_keep_first allIssues_def)
  show "distinct (map issue_key (uniqueIssues (allIssues modelIssues outdatedIssues)))"
    using keep_first_keys[of "{}"] by (simp add: uniqueIssues_keep_first)
  assume "issue_key a = issue_key b"
  then show "uniqueIssues (allIssues [a, b] []) = [a]"
    by (simp add: uniqueIssues_keep_first allIssues_def)
qed

theorem uniqueIssues_first_occurrence_witness:
  "issue_key demo_issue_a = issue_key demo_issue_b \<and>
   is_description demo_issue_a \<noteq> is_description demo_issue_b \<and>
   uniqueIssues (allIssues [demo_issue_a, demo_issue_b] []) = [demo_issue_a]"
proof -
  have k: "issue_key demo_issue_a = issue_key demo_issue_b"
    by (simp add: issue_key_def demo_issue_a_def demo_issue_b_def)
  have d: "is_description demo_issue_a \<noteq> is_description demo_issue_b"
    by (simp add: demo_issue_a_def demo_issue_b_def ascii_def)
  from uniqueIssues_first_occurrence[of "[]" "[]" demo_issue_a demo_issue_b] k d
  show ?thesis by simp
qed

lemma filter_nonempty: "(0 < length (filter p xs)) = (\<exists>x \<in> set xs. p x)"
  by (induction xs) auto

lemma overallRiskLevel_thresholds:
  "overallRiskLevel riskLevel outdatedIssues unique risks =
     (if (\<exists>i \<in> set unique. is_severity i = Str (ascii ''high'')) \<or>
         (\<exists>i \<in> set unique. is_priority i = Str (ascii ''immediate'') \<or> is_priority i = Str (ascii ''high'')) \<or>
         length risks > 5 then ascii ''high''
      else if (\<exists>i \<in> set unique. is_severity i = Str (ascii ''medium'')) \<or> length risks > 2
      then ascii ''medium''
      else if truthy riskLevel then to_string riskLevel
      else if outdatedIssues \<noteq> [] then ascii ''high'' else ascii ''low'')"
  unfolding overallRiskLevel_def Let_def filter_nonempty
  by (simp add: or_else_def)

lemma heuristic_keys_distinct:
  assumes "distinct (map (\<lambda>i. (oi_term i, oi_location i)) h)"
  shows "distinct (map issue_key (map heuristic_issue h))"
proof -
  have "map issue_key (map heuristic_issue h) =
        map (\<lambda>p. (Str (fst p), snd p)) (map (\<lambda>i. (oi_term i, oi_location i)) h)"
    by (simp add: issue_key_def heuristic_issue_def or_else_def)
  moreover have "inj (\<lambda>p :: jsstring \<times> jsval. (Str (fst p), snd p))"
    by (auto simp: inj_on_def)
  ultimately show ?thesis using assms by (simp add: distinct_map inj_on_def del: map_map)
qed

text \<open>
  Claim C8, as amended. The overall risk level is high if an issue left after
  deduplication has severity high or priority immediate or high, or if the risk entries
  (those of the model and one for each issue left) are more than 5; otherwise medium if
  an issue has severity medium or the entries are more than 2; otherwise the level that
  the model gave, or, without one, high if the heuristics matched and low if not. More
  than 5 heuristic matches at different places with no issue from the model give high,
  whatever their severities.
\<close>

theorem aggregate_risk_level:
  assumes "spread (an_issues a) = Inr modelIssues" and "spread (an_risks a) = Inr modelRisks"
  shows "\<exists>r. aggregate url a h = Inr r \<and>
     ur_issues r = uniqueIssues (allIssues modelIssues h) \<and>
     length (ur_risks r) = length modelRisks + length (ur_issues r) \<and>
     ur_riskLevel r =
       (if (\<exists>i \<in> set (ur_issues r). is_severity i = Str (ascii ''high'')) \<or>
           (\<exists>i \<in> set (ur_issues r). is_priority i = Str (ascii ''immediate'') \<or>
                                      is_priority i = Str (ascii ''high'')) \<or>
           length modelRisks + length (ur_issues r) > 5 then ascii ''high''
        else if (\<exists>i \<in> set (ur_issues r). is_severity i = Str (ascii ''medium'')) \<or>
                length modelRisks + length (ur_issues r) > 2 then ascii ''medium''
        else if truthy (an_riskLevel a) then to_string (an_riskLevel a)
        else if h \<noteq> [] then ascii ''high'' else ascii ''low'') \<and>
     (modelIssues = [] \<and> length h > 5 \<and> distinct (map (\<lambda>i. (oi_term i, oi_location i)) h) \<longrightarrow>
        ur_riskLevel r = ascii ''high'')"
proof -
  let ?u = "uniqueIssues (allIssues modelIssues h)"
  let ?r = "\<lparr> ur_url = url, ur_success = True, ur_error = None,
              ur_risks = allRisks modelRisks ?u,
              ur_riskLevel = overallRiskLevel (an_riskLevel a) h ?u (allRisks modelRisks ?u),
              ur_issues = ?u \<rparr>"
  have agg: "aggregate url a h = Inr ?r"
    using assms by (simp add: aggregate_def)
  have len: "length (allRisks modelRisks ?u) = length modelRisks + length ?u"
    by (simp add: allRisks_def)
  have level: "ur_riskLevel ?r =
       (if (\<exists>i \<in> set ?u. is_severity i = Str (ascii ''high'')) \<or>
           (\<exists>i \<in> set ?u. is_priority i = Str (ascii ''immediate'') \<or>
                                      is_priority i = Str (ascii ''high'')) \<or>
           length modelRisks + length ?u > 5 then ascii ''high''
        else if (\<exists>i \<in> set ?u. is_severity i = Str (ascii ''medium'')) \<or>
                length modelRisks + length ?u > 2 then ascii ''medium''
        else if truthy (an_riskLevel a) then to_string (an_riskLevel a)
        else if h \<noteq> [] then ascii ''high'' else ascii ''low'')"
    using overallRiskLevel_thresholds[of "an_riskLevel a" h ?u "allRisks modelRisks ?u"]
    unfolding len by simp
  have six: "ur_riskLevel ?r = ascii ''high''"
    if "modelIssues = []" "length h > 5" "distinct (map (\<lambda>i. (oi_term i, oi_location i)) h)"
  proof -
    have "?u = map heuristic_issue h"
      using keep_first_distinct[OF heuristic_keys_distinct[OF that(3)], of "{}"] that(1)
      by (simp add: uniqueIssues_keep_first allIssues_def)
    then have "length modelRisks + length ?u > 5" using that(2) by simp
    then show ?thesis unfolding level by simp
  qed
  show ?thesis
    apply (rule exI[of _ ?r])
    using agg len level six by simp
qed


theorem aggregate_risk_level_witness:
  "map oi_severity six_low_issues = [Low, Low, Low, Low, Low, Low] \<and>
   (\<exists>r. aggregate (ascii ''https://a.example'') quiet_analysis six_low_issues = Inr r \<and>
        ur_riskLevel r = ascii ''high'')"
proof -
  have 1: "spread (an_issues quiet_analysis) = Inr []" by (simp add: quiet_analysis_def)
  have 2: "spread (an_risks quiet_analysis) = Inr []" by (simp add: quiet_analysis_def)
  have 3: "length six_low_issues > 5" by (simp add: six_low_issues_def)
  have 4: "distinct (map (\<lambda>i. (oi_term i, oi_location i)) six_low_issues)"
    by (simp add: six_low_issues_def low_issue_def ascii_def)
  have 5: "map oi_severity six_low_issues = [Low, Low, Low, Low, Low, Low]"
    by (simp add: six_low_issues_def low_issue_def)
  from aggregate_risk_level[OF 1 2, of "ascii ''https://a.example''" six_low_issues] 3 4 5
  show ?thesis by auto
qed

theorem claimed_severity_counterexample:
  "aggregate (ascii ''https://a.example'') model_says_high [] =
     Inr \<lparr> ur_url = ascii ''https://a.example'', ur_success = True, ur_error = None, ur_risks = [],
           ur_riskLevel = ascii ''high'', ur_issues = [] \<rparr> \<and>
   claimed_severity [] = ascii ''low'' \<and>
   aggregate (ascii ''https://a.example'') three_risks [] =
     Inr \<lparr> ur_url = ascii ''https://a.example'', ur_success = True, ur_error = None,
           ur_risks = [ascii ''Old screenshots'', ascii ''Old menu names'', ascii ''No Ultra link''],
           ur_riskLevel = ascii ''medium'', ur_issues = [] \<rparr> \<and>
   ascii ''high'' \<noteq> ascii ''low'' \<and> ascii ''medium'' \<noteq> ascii ''low''"
  by (simp add: aggregate_def model_says_high_def three_risks_def allIssues_def uniqueIssues_def
        allRisks_def overallRiskLevel_def claimed_severity_def or_else_def ascii_def)

section \<open>The analysis route\<close>















section \<open>Ingestion\<close>



lemma script_upload_loop_counts:
  "script_upload_loop sv file chunks j acc st = (acc', st') \<Longrightarrow>
   fst acc' + length (snd acc') = fst acc + length (snd acc) + length chunks \<and> fst acc \<le> fst acc'"
proof (induction chunks arbitrary: j acc st)
  case Nil
  then show ?case by simp
next
  case (Cons chunk rest)
  from Cons.prems show ?case
    by (auto split: prod.splits sum.splits dest!: Cons.IH)
qed

lemma upsertToPinecone_dom:
  "snd (snd (upsertToPinecone sv vectors st)) = snd st \<or>
   dom (snd (snd (upsertToPinecone sv vectors st))) = dom (snd st) \<union> pv_id ` set vectors"
proof -
  have "dom (fold (\<lambda>v m. m(pv_id v \<mapsto> v)) vs m) = dom m \<union> pv_id ` set vs" for vs and m :: index
    by (induction vs arbitrary: m) auto
  then show ?thesis
    by (auto simp: upsertToPinecone_def split: prod.splits option.splits)
qed

lemma dom_grows_within:
  "A \<subseteq> C \<Longrightarrow> C \<subseteq> A \<union> I1 \<Longrightarrow> I1 \<subseteq> I2 \<Longrightarrow> A \<subseteq> C \<and> C \<subseteq> A \<union> I2"
  by blast

lemma dom_grows_within_step:
  "A \<subseteq> B \<Longrightarrow> B \<subseteq> A \<union> {x} \<Longrightarrow> B \<subseteq> C \<Longrightarrow> C \<subseteq> B \<union> I1 \<Longrightarrow> I1 \<subseteq> I2 \<Longrightarrow> x \<in> I2 \<Longrightarrow>
   A \<subseteq> C \<and> C \<subseteq> A \<union> I2"
  by blast

lemma script_upload_loop_dom:
  "script_upload_loop sv file chunks j acc st = (acc', st') \<Longrightarrow>
   dom (snd st) \<subseteq> dom (snd st') \<and>
   dom (snd st') \<subseteq> dom (snd st) \<union>
     (\<lambda>k. to_string (f_id file) @ ascii ''_chunk_'' @ decimal k) ` {j ..< j + length chunks}"
proof (induction chunks arbitrary: j acc st)
  case Nil
  then show ?case by simp
next
  case (Cons chunk rest)
  let ?id = "\<lambda>k. to_string (f_id file) @ ascii ''_chunk_'' @ decimal k"
  obtain r w1 where e: "getEmbedding sv chunk (fst st) = (r, w1)"
    by (cases "getEmbedding sv chunk (fst st)")
  have "{j + 1 ..< j + 1 + length rest} \<subseteq> {j ..< j + length (chunk # rest)}"
    by auto
  then have later: "?id ` {j + 1 ..< j + 1 + length rest} \<subseteq> ?id ` {j ..< j + length (chunk # rest)}"
    by (rule image_mono)
  have "j \<in> {j ..< j + length (chunk # rest)}" by simp
  then have here: "?id j \<in> ?id ` {j ..< j + length (chunk # rest)}" by (rule imageI)
  show ?case
  proof (cases r)
    case (Inl chunkError)
    with Cons.prems e
    have "script_upload_loop sv file rest (j + 1) (fst acc, snd acc @ [(j, chunkError)]) (w1, snd st) = (acc', st')"
      by simp
    from Cons.IH[OF this]
    have ih: "dom (snd st) \<subseteq> dom (snd st') \<and>
         dom (snd st') \<subseteq> dom (snd st) \<union> ?id ` {j + 1 ..< j + 1 + length rest}"
      by (simp only: snd_conv)
    show ?thesis
      by (rule dom_grows_within[OF ih[THEN conjunct1] ih[THEN conjunct2] later])
  next
    case (Inr emb)
    obtain u st2 where u: "upsertToPinecone sv [script_vector file j chunk emb] (w1, snd st) = (u, st2)"
      by (cases "upsertToPinecone sv [script_vector file j chunk emb] (w1, snd st)") auto
    from upsertToPinecone_dom[of sv "[script_vector file j chunk emb]" "(w1, snd st)"] u
    have "snd st2 = snd st \<or> dom (snd st2) = dom (snd st) \<union> {?id j}"
      by (simp add: script_vector_def)
    then have d: "dom (snd st) \<subseteq> dom (snd st2)" "dom (snd st2) \<subseteq> dom (snd st) \<union> {?id j}"
      by auto
    have "\<exists>a. script_upload_loop sv file rest (j + 1) a st2 = (acc', st')"
      using Cons.prems e Inr u by (cases u) auto
    then obtain a where "script_upload_loop sv file rest (j + 1) a st2 = (acc', st')" by blast
    from Cons.IH[OF this]
    have ih: "dom (snd st2) \<subseteq> dom (snd st') \<and>
         dom (snd st') \<subseteq> dom (snd st2) \<union> ?id ` {j + 1 ..< j + 1 + length rest}" .
    show ?thesis
      by (rule dom_grows_within_step[OF d ih[THEN conjunct1] ih[THEN conjunct2] later here])
  qed
qed


lemma dom_stays: "A \<subseteq> C \<and> C \<subseteq> A \<union> I \<Longrightarrow> I \<subseteq> A \<Longrightarrow> C = A"
  by blast

lemma script_resync_no_growth:
  assumes "script_upload_loop sv file chunks j acc st = (acc', st')"
    and "(\<lambda>k. to_string (f_id file) @ ascii ''_chunk_'' @ decimal k) ` {j ..< j + length chunks} \<subseteq> dom (snd st)"
  shows "dom (snd st') = dom (snd st)"
  by (rule dom_stays[OF script_upload_loop_dom[OF assms(1)] assms(2)])

lemma script_and_route_ids_never_agree:
  "pv_id (script_vector file j chunk emb) \<noteq> pv_id (route_vector file j' chunk' emb')"
  by (simp add: script_vector_def route_vector_def ascii_def)

lemma route_embedding_failure_stores_nothing:
  assumes "getFileContent sv (f_id file) (or_else (f_mimeType file) (Str (ascii ''text/plain''))) (fst st) = (Inr buffer, w1)"
    and "buffer \<noteq> []"
    and "extractTextFromDocument sv buffer (or_else (f_mimeType file) (Str (ascii ''text/plain''))) w1 = (Inr text, w2)"
    and "trim text \<noteq> []" and "chunk_text text \<noteq> []"
    and "route_embed_loop sv file (chunk_text text) 0 [] w2 = (Inl e, w3)"
  shows "route_try_file sv file st = (Inl e, (w3, snd st))"
proof -
  have "text \<noteq> []" using assms(4) by (auto simp: trim_def)
  then show ?thesis
    using assms by (simp add: route_try_file_def)
qed

lemma chunk_text_one_paragraph: "chunk_text text_one_paragraph = [text_one_paragraph]"
  by code_simp

lemma chunk_text_two_paragraphs: "chunk_text text_two_paragraphs =
   [ascii ''The first paragraph of the text.'', ascii ''The second paragraph of the text.'']"
  by code_simp

lemma trim_one_paragraph: "length (trim text_one_paragraph) = 32" by code_simp
lemma trim_two_paragraphs: "length (trim text_two_paragraphs) = 67" by code_simp
lemma one_paragraph_nonempty: "text_one_paragraph \<noteq> []" by code_simp
lemma two_paragraphs_nonempty: "text_two_paragraphs \<noteq> []" by code_simp
lemma decimal_0: "decimal 0 = ascii ''0''" by code_simp
lemma decimal_1: "decimal 1 = ascii ''1''" by code_simp

lemmas sync_defs = sync_POST_def route_loop.simps route_file_def route_try_file_def
  route_embed_loop.simps route_vector_def upsertToPinecone_def vectorizeDriveFiles_def
  script_loop.simps script_file_def script_try_file_def script_upload_loop.simps script_vector_def
  script_name_def or_else_def has_id_and_name_def fresh_state_def

text \<open>
  Claim C1. A file of two chunks, where the embedding of the second chunk fails: the
  script skips that chunk, stores the first and reports one chunk for the file; the route
  gives the file up, stores nothing and reports no chunk and the error.
\<close>

theorem route_chunk_failure_loses_file:
  "fst (sync_POST flaky_embedding_services folder Undefined fresh_state) =
     RouteOk \<lparr> sr_totalFiles = 1, sr_totalChunks = 0,
               sr_processedFiles =
                 [\<lparr> pf_name = ascii ''notes.txt'', pf_chunks = 0,
                     pf_error = Some (ascii ''Rate limit reached'') \<rparr>],
               sr_failedFileDetails = [(ascii ''notes.txt'', ascii ''Rate limit reached'')] \<rparr> \<and>
   snd (snd (sync_POST flaky_embedding_services folder Undefined fresh_state)) (ascii ''f1-chunk-0'') = None \<and>
   fst (vectorizeDriveFiles flaky_embedding_services folder fresh_state) =
     Summary [\<lparr> pf_name = ascii ''notes.txt'', pf_chunks = 1, pf_error = None \<rparr>] 1 \<and>
   snd (snd (vectorizeDriveFiles flaky_embedding_services folder fresh_state)) (ascii ''f1_chunk_0'') \<noteq> None"
  by (simp add: sync_defs flaky_embedding_services_def demo_services_def demo_file_def folder_def
        chunk_text_two_paragraphs trim_two_paragraphs two_paragraphs_nonempty decimal_0 decimal_1)
     (simp add: ascii_def)


lemma state_after_script_eq:
  "state_after_script =
     (5, [ascii ''f1_chunk_0'' \<mapsto> script_vector demo_file 0 text_one_paragraph [1 / 2]])"
  by (simp add: state_after_script_def sync_defs demo_services_def demo_file_def folder_def
        chunk_text_one_paragraph trim_one_paragraph one_paragraph_nonempty decimal_0)
     (simp add: ascii_def)

lemma state_after_script_twice_eq:
  "state_after_script_twice =
     (10, [ascii ''f1_chunk_0'' \<mapsto> script_vector demo_file 0 text_one_paragraph [1 / 2]])"
  by (simp add: state_after_script_twice_def state_after_script_eq)
     (simp add: sync_defs demo_services_def demo_file_def folder_def
        chunk_text_one_paragraph trim_one_paragraph one_paragraph_nonempty decimal_0 ascii_def)

lemma state_after_script_then_route_eq:
  "state_after_script_then_route =
     (10, [ascii ''f1_chunk_0'' \<mapsto> script_vector demo_file 0 text_one_paragraph [1 / 2],
          ascii ''f1-chunk-0'' \<mapsto> route_vector demo_file 0 text_one_paragraph [1 / 2]])"
  by (simp add: state_after_script_then_route_def state_after_script_eq)
     (simp add: sync_defs demo_services_def demo_file_def folder_def
        chunk_text_one_paragraph trim_one_paragraph one_paragraph_nonempty decimal_0 ascii_def)

text \<open>
  Claim C5. A file of one chunk, unchanged: a second run of the script leaves the one
  vector of the first run, under the same identifier; a run of the route after the script
  stores the same chunk again under a second identifier, as the route separates file id
  and chunk index with \<open>-chunk-\<close> where the script writes \<open>_chunk_\<close>.
\<close>

theorem script_and_route_ids_differ:
  "dom (snd state_after_script) = {ascii ''f1_chunk_0''} \<and>
   dom (snd state_after_script_twice) = {ascii ''f1_chunk_0''} \<and>
   dom (snd state_after_script_then_route) = {ascii ''f1_chunk_0'', ascii ''f1-chunk-0''} \<and>
   ascii ''f1_chunk_0'' \<noteq> ascii ''f1-chunk-0'' \<and>
   stored_chunk (snd state_after_script_then_route) (ascii ''f1_chunk_0'') =
     Some (Str (ascii ''f1''), Some 0, Str text_one_paragraph) \<and>
   stored_chunk (snd state_after_script_then_route) (ascii ''f1-chunk-0'') =
     Some (Str (ascii ''f1''), Some 0, Str text_one_paragraph)"
  by (simp add: state_after_script_eq state_after_script_twice_eq state_after_script_then_route_eq
        script_vector_def route_vector_def demo_file_def stored_chunk_def)
     (auto simp add: ascii_def)
























end
